theory Spec2Isabelle
  imports Complex_Main "HOL-Library.Multiset"
begin

section \<open>Exceptions\<close>

text \<open>
  The exception classes of \<^verbatim>\<open>domain/domain_exceptions.py\<close> together with the two
  built-in classes the code raises. Each value carries the message the exception was
  constructed with. \<open>Exception\<close> stands for the base class itself, as raised by
  \<^verbatim>\<open>FakePaymentGateway.charge\<close>. The \<^verbatim>\<open>TypeError\<close> branches of \<^verbatim>\<open>Money\<close> guard
  against ill-typed arguments and cannot be taken by the typed model.
\<close>

datatype exn =
    DomainException string
  | EmptyOrderError string
  | OrderAlreadyPaidError string
  | OrderCannotBeModifiedError string
  | InvalidOrderLineError string
  | ValueError string
  | Exception string

text \<open>\<^verbatim>\<open>isinstance(e, DomainException)\<close>: the class itself and its four subclasses.\<close>

fun isinstance_DomainException :: "exn \<Rightarrow> bool" where
  "isinstance_DomainException (DomainException m) = True"
| "isinstance_DomainException (EmptyOrderError m) = True"
| "isinstance_DomainException (OrderAlreadyPaidError m) = True"
| "isinstance_DomainException (OrderCannotBeModifiedError m) = True"
| "isinstance_DomainException (InvalidOrderLineError m) = True"
| "isinstance_DomainException (ValueError m) = False"
| "isinstance_DomainException (Exception m) = False"

text \<open>\<^verbatim>\<open>str(e)\<close> of an exception built from one message.\<close>

fun str :: "exn \<Rightarrow> string" where
  "str (DomainException m) = m"
| "str (EmptyOrderError m) = m"
| "str (OrderAlreadyPaidError m) = m"
| "str (OrderCannotBeModifiedError m) = m"
| "str (InvalidOrderLineError m) = m"
| "str (ValueError m) = m"
| "str (Exception m) = m"

section \<open>Money\<close>

text \<open>
  \<^verbatim>\<open>domain/money.py\<close>. A \<^verbatim>\<open>Decimal\<close> amount is modelled by the rational number it
  denotes, with exact addition and multiplication: the rounding of the decimal context
  (28 significant digits by default) and the special values NaN and Infinity are not part
  of this model. A UUID is identified with its canonical text, so that \<^verbatim>\<open>str(uuid)\<close> is
  the identity.
\<close>

type_synonym uuid = string
type_synonym datetime = nat

record money =
  amount :: rat
  currency :: string

text \<open>The constructor with its \<^verbatim>\<open>__post_init__\<close> check.\<close>

definition Money :: "rat \<Rightarrow> string \<Rightarrow> exn + money" where
  "Money amt cur =
     (if amt < 0 then Inl (ValueError ''Amount cannot be negative'')
      else Inr \<lparr>amount = amt, currency = cur\<rparr>)"

text \<open>\<^verbatim>\<open>Money.__add__\<close>.\<close>

definition money_add :: "money \<Rightarrow> money \<Rightarrow> exn + money" where
  "money_add a b =
     (if currency a \<noteq> currency b
      then Inl (ValueError (''Cannot add different currencies: '' @ currency a @ '' and '' @ currency b))
      else Money (amount a + amount b) (currency a))"

text \<open>\<^verbatim>\<open>Money.__mul__\<close>.\<close>

definition money_mul :: "money \<Rightarrow> int \<Rightarrow> exn + money" where
  "money_mul a q = Money (amount a * of_int q) (currency a)"

section \<open>OrderLine\<close>

record order_line =
  product_id :: uuid
  product_name :: string
  price :: money
  quantity :: int

text \<open>The constructor with its \<^verbatim>\<open>__post_init__\<close> checks, quantity first.\<close>

definition OrderLine :: "uuid \<Rightarrow> string \<Rightarrow> money \<Rightarrow> int \<Rightarrow> exn + order_line" where
  "OrderLine pid name p q =
     (if q \<le> 0 then Inl (InvalidOrderLineError ''Quantity must be positive'')
      else if amount p \<le> 0 then Inl (InvalidOrderLineError ''Price must be positive'')
      else Inr \<lparr>product_id = pid, product_name = name, price = p, quantity = q\<rparr>)"

definition subtotal :: "order_line \<Rightarrow> exn + money" where
  "subtotal l = money_mul (price l) (quantity l)"

section \<open>Order\<close>

datatype order_status = PENDING | PAID | CANCELLED

text \<open>
  The aggregate of \<^verbatim>\<open>domain/order_aggregate.py\<close>. The field \<^verbatim>\<open>id\<close> is named
  \<open>id_order\<close> and \<^verbatim>\<open>_version\<close> is named \<open>version\<close>. The lines are owned by the order
  and held by value.
\<close>

record order =
  id_order :: uuid
  customer_id :: uuid
  lines :: "order_line list"
  status :: order_status
  created_at :: datetime
  paid_at :: "datetime option"
  version :: int

text \<open>
  \<^verbatim>\<open>Order()\<close> with the default fields; the two generated UUIDs and the creation time
  are parameters.
\<close>

definition Order :: "uuid \<Rightarrow> uuid \<Rightarrow> datetime \<Rightarrow> order" where
  "Order oid cid now =
     \<lparr>id_order = oid, customer_id = cid, lines = [], status = PENDING,
      created_at = now, paid_at = None, version = 0\<rparr>"

text \<open>
  A method that mutates the order and may raise returns the outcome (\<open>Inl\<close> the exception,
  \<open>Inr ()\<close> a normal return) paired with the order as the call leaves it.
\<close>

type_synonym outcome = "(exn + unit) \<times> order"

definition check_modifiable :: "order \<Rightarrow> exn + unit" where
  "check_modifiable od =
     (if status od = PAID then Inl (OrderCannotBeModifiedError ''Cannot modify paid order'')
      else Inr ())"

text \<open>
  The loop of \<^verbatim>\<open>add_line\<close>: the first line of the product gets the quantity added;
  \<open>None\<close> when the loop ends without a match.
\<close>

fun merge_line :: "uuid \<Rightarrow> int \<Rightarrow> order_line list \<Rightarrow> order_line list option" where
  "merge_line pid q [] = None"
| "merge_line pid q (l # ls) =
     (if product_id l = pid then Some (l\<lparr>quantity := quantity l + q\<rparr> # ls)
      else map_option (Cons l) (merge_line pid q ls))"

definition add_line :: "uuid \<Rightarrow> string \<Rightarrow> money \<Rightarrow> int \<Rightarrow> order \<Rightarrow> outcome" where
  "add_line pid name p q od =
     (case check_modifiable od of
        Inl e \<Rightarrow> (Inl e, od)
      | Inr _ \<Rightarrow>
          (case merge_line pid q (lines od) of
             Some ls \<Rightarrow> (Inr (), od\<lparr>lines := ls, version := version od + 1\<rparr>)
           | None \<Rightarrow>
               (case OrderLine pid name p q of
                  Inl e \<Rightarrow> (Inl e, od)
                | Inr l \<Rightarrow> (Inr (), od\<lparr>lines := lines od @ [l], version := version od + 1\<rparr>))))"

definition remove_line :: "uuid \<Rightarrow> order \<Rightarrow> outcome" where
  "remove_line pid od =
     (case check_modifiable od of
        Inl e \<Rightarrow> (Inl e, od)
      | Inr _ \<Rightarrow>
          (let kept = filter (\<lambda>l. product_id l \<noteq> pid) (lines od)
           in if length kept \<noteq> length (lines od)
              then (Inr (), od\<lparr>lines := kept, version := version od + 1\<rparr>)
              else (Inr (), od\<lparr>lines := kept\<rparr>)))"

text \<open>The assignment \<^verbatim>\<open>line.quantity = quantity\<close> on the first line of the product.\<close>

fun set_quantity :: "uuid \<Rightarrow> int \<Rightarrow> order_line list \<Rightarrow> order_line list" where
  "set_quantity pid q [] = []"
| "set_quantity pid q (l # ls) =
     (if product_id l = pid then l\<lparr>quantity := q\<rparr> # ls
      else l # set_quantity pid q ls)"

definition update_quantity :: "uuid \<Rightarrow> int \<Rightarrow> order \<Rightarrow> outcome" where
  "update_quantity pid q od =
     (case check_modifiable od of
        Inl e \<Rightarrow> (Inl e, od)
      | Inr _ \<Rightarrow>
          (if pid \<in> set (map product_id (lines od)) then
             (if q \<le> 0 then
                (case remove_line pid od of
                   (Inl e, o1) \<Rightarrow> (Inl e, o1)
                 | (Inr _, o1) \<Rightarrow> (Inr (), o1\<lparr>version := version o1 + 1\<rparr>))
              else (Inr (), od\<lparr>lines := set_quantity pid q (lines od),
                                version := version od + 1\<rparr>))
           else (Inl (ValueError (''Product '' @ pid @ '' not found in order'')), od)))"

definition clear_lines :: "order \<Rightarrow> outcome" where
  "clear_lines od =
     (case check_modifiable od of
        Inl e \<Rightarrow> (Inl e, od)
      | Inr _ \<Rightarrow> (Inr (), od\<lparr>lines := [], version := version od + 1\<rparr>))"

text \<open>
  The property \<^verbatim>\<open>total\<close> is named \<open>total_order\<close>. Its loop is a left fold
  with \<^verbatim>\<open>Money.__add__\<close> that stops at the first raise.
\<close>

fun total_loop :: "money \<Rightarrow> order_line list \<Rightarrow> exn + money" where
  "total_loop t [] = Inr t"
| "total_loop t (l # ls) =
     (case subtotal l of
        Inl e \<Rightarrow> Inl e
      | Inr s \<Rightarrow> (case money_add t s of Inl e \<Rightarrow> Inl e | Inr t' \<Rightarrow> total_loop t' ls))"

definition total_order :: "order \<Rightarrow> exn + money" where
  "total_order od =
     (case lines od of
        [] \<Rightarrow> Money 0 ''USD''
      | l0 # _ \<Rightarrow>
          (case Money 0 (currency (price l0)) of
             Inl e \<Rightarrow> Inl e
           | Inr t \<Rightarrow> total_loop t (lines od)))"

text \<open>\<^verbatim>\<open>pay\<close>; the argument \<open>now\<close> is what \<^verbatim>\<open>datetime.now()\<close> returns.\<close>

definition pay :: "datetime \<Rightarrow> order \<Rightarrow> outcome" where
  "pay now od =
     (if lines od = [] then (Inl (EmptyOrderError ''Cannot pay empty order''), od)
      else if status od = PAID then (Inl (OrderAlreadyPaidError ''Order is already paid''), od)
      else (Inr (), od\<lparr>status := PAID, paid_at := Some now, version := version od + 1\<rparr>))"

definition cancel :: "order \<Rightarrow> outcome" where
  "cancel od =
     (case check_modifiable od of
        Inl e \<Rightarrow> (Inl e, od)
      | Inr _ \<Rightarrow> (Inr (), od\<lparr>status := CANCELLED, version := version od + 1\<rparr>))"

definition is_paid :: "order \<Rightarrow> bool" where
  "is_paid od = (status od = PAID)"

definition line_count :: "order \<Rightarrow> nat" where
  "line_count od = length (lines od)"

subsection \<open>Calls as data\<close>

text \<open>One call of a public mutating method, with its arguments.\<close>

datatype op =
    AddLine uuid string money int
  | RemoveLine uuid
  | UpdateQuantity uuid int
  | ClearLines
  | Pay datetime
  | Cancel

fun apply_op :: "op \<Rightarrow> order \<Rightarrow> outcome" where
  "apply_op (AddLine pid name p q) od = add_line pid name p q od"
| "apply_op (RemoveLine pid) od = remove_line pid od"
| "apply_op (UpdateQuantity pid q) od = update_quantity pid q od"
| "apply_op ClearLines od = clear_lines od"
| "apply_op (Pay now) od = pay now od"
| "apply_op Cancel od = cancel od"

text \<open>
  A sequence of calls on one order; a call that raises is caught by the caller and the
  next call goes on with the order as it is.
\<close>

fun run_ops :: "op list \<Rightarrow> order \<Rightarrow> order" where
  "run_ops [] od = od"
| "run_ops (c # cs) od = run_ops cs (snd (apply_op c od))"

text \<open>A \<^verbatim>\<open>Money\<close> argument is one its constructor returned.\<close>

fun wellformed_op :: "op \<Rightarrow> bool" where
  "wellformed_op (AddLine pid name p q) = (0 \<le> amount p)"
| "wellformed_op _ = True"

text \<open>The orders that calls of the public methods produce from a new order.\<close>

inductive reachable :: "order \<Rightarrow> bool" where
  new: "reachable (Order oid cid now)"
| step: "reachable od \<Longrightarrow> wellformed_op c \<Longrightarrow> reachable (snd (apply_op c od))"

section \<open>The use case\<close>

text \<open>\<^verbatim>\<open>application/pay_order_usecase.py\<close>.\<close>

record payment_result =
  success :: bool
  order_id :: "uuid option"
  transaction_id :: "string option"
  error :: "string option"

text \<open>
  The two \<^verbatim>\<open>except\<close> clauses of \<^verbatim>\<open>execute\<close>, in their order: a domain exception
  gives its message, any other exception the prefixed message.
\<close>

definition handle_exception :: "uuid \<Rightarrow> exn \<Rightarrow> payment_result" where
  "handle_exception oid e =
     (if isinstance_DomainException e
      then \<lparr>success = False, order_id = Some oid, transaction_id = None, error = Some (str e)\<rparr>
      else \<lparr>success = False, order_id = Some oid, transaction_id = None,
            error = Some (''Payment processing error: '' @ str e)\<rparr>)"

text \<open>
  Orders are objects: a reference is an address, and the heap gives the order an address
  holds. The world is the heap, the clock that \<^verbatim>\<open>datetime.now()\<close> reads, and the state of
  the two collaborators.
\<close>

type_synonym addr = nat

record 's world =
  heap :: "addr \<Rightarrow> order"
  clock :: datetime
  collab :: 's

text \<open>
  The interfaces of \<^verbatim>\<open>application/interfaces.py\<close>. An implementation is any function
  on the world that returns a value or raises.
\<close>

record 's order_repository =
  get_by_id :: "uuid \<Rightarrow> 's world \<Rightarrow> (exn + addr option) \<times> 's world"
  save :: "addr \<Rightarrow> 's world \<Rightarrow> (exn + unit) \<times> 's world"

record 's payment_gateway =
  charge :: "uuid \<Rightarrow> money \<Rightarrow> 's world \<Rightarrow> (exn + string) \<times> 's world"

text \<open>The calls \<^verbatim>\<open>execute\<close> makes on its collaborators, in the order it makes them.\<close>

datatype call = GetById uuid | Charge uuid money | Save addr

text \<open>\<^verbatim>\<open>order.pay()\<close> on the object at an address.\<close>

definition pay_at :: "addr \<Rightarrow> 's world \<Rightarrow> (exn + unit) \<times> 's world" where
  "pay_at a w =
     (case pay (clock w) (heap w a) of
        (r, o1) \<Rightarrow> (r, w\<lparr>heap := (heap w)(a := o1)\<rparr>))"

text \<open>
  \<^verbatim>\<open>PayOrderUseCase.execute\<close>: the result, the calls made on the collaborators, and the
  world the call leaves.
\<close>

definition execute ::
  "'s order_repository \<Rightarrow> 's payment_gateway \<Rightarrow> uuid \<Rightarrow> 's world
     \<Rightarrow> (payment_result \<times> call list) \<times> 's world" where
  "execute repo gw oid w =
     (case get_by_id repo oid w of
        (Inl e, w1) \<Rightarrow> ((handle_exception oid e, [GetById oid]), w1)
      | (Inr None, w1) \<Rightarrow>
          ((\<lparr>success = False, order_id = Some oid, transaction_id = None,
             error = Some (''Order '' @ oid @ '' not found'')\<rparr>, [GetById oid]), w1)
      | (Inr (Some a), w1) \<Rightarrow>
          (case pay_at a w1 of
             (Inl e, w2) \<Rightarrow> ((handle_exception oid e, [GetById oid]), w2)
           | (Inr _, w2) \<Rightarrow>
               (case total_order (heap w2 a) of
                  Inl e \<Rightarrow> ((handle_exception oid e, [GetById oid]), w2)
                | Inr amt \<Rightarrow>
                    (case charge gw oid amt w2 of
                       (Inl e, w3) \<Rightarrow>
                         ((handle_exception oid e, [GetById oid, Charge oid amt]), w3)
                     | (Inr txn, w3) \<Rightarrow>
                         (case save repo a w3 of
                            (Inl e, w4) \<Rightarrow>
                              ((handle_exception oid e,
                                [GetById oid, Charge oid amt, Save a]), w4)
                          | (Inr _, w4) \<Rightarrow>
                              ((\<lparr>success = True, order_id = Some oid,
                                 transaction_id = Some txn, error = None\<rparr>,
                                [GetById oid, Charge oid amt, Save a]), w4))))))"

section \<open>The in-memory repository and the fake gateway\<close>

text \<open>\<^verbatim>\<open>infrastructure/payment_gateway.py\<close>: \<^verbatim>\<open>TransactionRecord\<close>.\<close>

record transaction_record =
  tr_order_id :: uuid
  tr_amount :: money
  tr_transaction_id :: string
  tr_timestamp :: datetime
  tr_status :: string

text \<open>
  The fields of \<^verbatim>\<open>InMemoryOrderRepository\<close> (the dictionary \<^verbatim>\<open>_orders\<close>, from an id to
  the order object) and of \<^verbatim>\<open>FakePaymentGateway\<close>.
\<close>

record infra =
  orders :: "uuid \<Rightarrow> addr option"
  success_rate :: rat
  simulate_failure :: bool
  transactions :: "transaction_record list"
  failures_count :: int

text \<open>
  \<^verbatim>\<open>get_by_id\<close> returns the stored object itself, not a copy; an order object is
  always true in a condition.
\<close>

definition InMemoryOrderRepository_get_by_id ::
  "uuid \<Rightarrow> infra world \<Rightarrow> (exn + addr option) \<times> infra world" where
  "InMemoryOrderRepository_get_by_id oid w =
     (case orders (collab w) oid of
        Some a \<Rightarrow> (Inr (Some a), w)
      | None \<Rightarrow> (Inr None, w))"

definition InMemoryOrderRepository_save ::
  "addr \<Rightarrow> infra world \<Rightarrow> (exn + unit) \<times> infra world" where
  "InMemoryOrderRepository_save a w =
     (Inr (), w\<lparr>collab := (collab w)\<lparr>orders := (orders (collab w))(id_order (heap w a) \<mapsto> a)\<rparr>\<rparr>)"

definition InMemoryOrderRepository :: "infra order_repository" where
  "InMemoryOrderRepository =
     \<lparr>get_by_id = InMemoryOrderRepository_get_by_id, save = InMemoryOrderRepository_save\<rparr>"

text \<open>
  \<^verbatim>\<open>FakePaymentGateway.charge\<close>. The arguments \<open>r\<close> and \<open>chars\<close> are what
  \<^verbatim>\<open>random.random()\<close> and \<^verbatim>\<open>random.choices(...)\<close> return in this call; \<open>r\<close> is read only
  when \<^verbatim>\<open>simulate_failure\<close> is set.
\<close>

definition FakePaymentGateway_charge ::
  "rat \<Rightarrow> string \<Rightarrow> uuid \<Rightarrow> money \<Rightarrow> infra world \<Rightarrow> (exn + string) \<times> infra world" where
  "FakePaymentGateway_charge r chars oid amt w =
     (if simulate_failure (collab w) \<and> r > success_rate (collab w)
      then (Inl (Exception (''Payment gateway declined transaction for order '' @ oid)),
            w\<lparr>collab := (collab w)\<lparr>failures_count := failures_count (collab w) + 1\<rparr>\<rparr>)
      else (Inr (''TXN_'' @ chars),
            w\<lparr>collab := (collab w)\<lparr>transactions := transactions (collab w) @
              [\<lparr>tr_order_id = oid, tr_amount = amt, tr_transaction_id = ''TXN_'' @ chars,
                tr_timestamp = clock w, tr_status = ''completed''\<rparr>]\<rparr>\<rparr>))"

definition FakePaymentGateway :: "rat \<Rightarrow> string \<Rightarrow> infra payment_gateway" where
  "FakePaymentGateway r chars = \<lparr>charge = FakePaymentGateway_charge r chars\<rparr>"

section \<open>Concrete orders\<close>

definition ex_price :: money where
  "ex_price = \<lparr>amount = 10, currency = ''USD''\<rparr>"

text \<open>A new order after one \<^verbatim>\<open>add_line\<close>.\<close>

definition ex_order :: order where
  "ex_order = run_ops [AddLine ''p1'' ''Widget'' ex_price 2] (Order ''o1'' ''c1'' 0)"

text \<open>The same order after \<^verbatim>\<open>cancel()\<close>.\<close>

definition ex_cancelled_order :: order where
  "ex_cancelled_order =
     run_ops [AddLine ''p1'' ''Widget'' ex_price 2, Cancel] (Order ''o1'' ''c1'' 0)"

text \<open>The same order after a second \<^verbatim>\<open>add_line\<close> of the same product with quantity -5.\<close>

definition ex_negative_order :: order where
  "ex_negative_order =
     run_ops [AddLine ''p1'' ''Widget'' ex_price 2, AddLine ''p1'' ''Widget'' ex_price (- 5)]
       (Order ''o1'' ''c1'' 0)"

text \<open>The order of the payment tests: a laptop at 999.99 USD and two mice at 29.99 USD.\<close>

definition ex_laptop_order :: order where
  "ex_laptop_order =
     run_ops [AddLine ''p1'' ''Laptop'' \<lparr>amount = 99999 / 100, currency = ''USD''\<rparr> 1,
              AddLine ''p2'' ''Mouse'' \<lparr>amount = 2999 / 100, currency = ''USD''\<rparr> 2]
       (Order ''o1'' ''c1'' 0)"

text \<open>An order with one line in USD and one in EUR.\<close>

definition ex_mixed_order :: order where
  "ex_mixed_order =
     run_ops [AddLine ''p1'' ''Widget'' ex_price 2,
              AddLine ''p2'' ''Gadget'' \<lparr>amount = 5, currency = ''EUR''\<rparr> 1]
       (Order ''o2'' ''c1'' 0)"

section \<open>Concrete worlds\<close>

text \<open>
  The set-up of the payment tests: the repository holds one order, saved under its id
  and living at address 0; the gateway is \<^verbatim>\<open>FakePaymentGateway(success_rate=1.0)\<close>,
  or \<^verbatim>\<open>FakePaymentGateway(success_rate=0.0, simulate_failure=True)\<close> when
  \<open>declining\<close> is set.
\<close>

definition ex_world :: "order \<Rightarrow> bool \<Rightarrow> infra world" where
  "ex_world od declining =
     \<lparr>heap = (\<lambda>_. Order [] [] 0)(0 := od), clock = 7,
      collab = \<lparr>orders = [id_order od \<mapsto> 0],
                success_rate = (if declining then 0 else 1),
                simulate_failure = declining, transactions = [], failures_count = 0\<rparr>\<rparr>"

text \<open>A repository that reads like the in-memory one and whose \<^verbatim>\<open>save\<close> raises.\<close>

definition ex_failing_repo :: "exn \<Rightarrow> infra order_repository" where
  "ex_failing_repo e =
     \<lparr>get_by_id = InMemoryOrderRepository_get_by_id, save = (\<lambda>a w. (Inl e, w))\<rparr>"

section \<open>Basic facts\<close>

lemma check_modifiable_paid:
  "status od = PAID \<Longrightarrow>
     check_modifiable od = Inl (OrderCannotBeModifiedError ''Cannot modify paid order'')"
  by (simp add: check_modifiable_def)

lemma check_modifiable_not_paid:
  "status od \<noteq> PAID \<Longrightarrow> check_modifiable od = Inr ()"
  by (simp add: check_modifiable_def)

lemma ex_order_eq:
  "ex_order = \<lparr>id_order = ''o1'', customer_id = ''c1'',
     lines = [\<lparr>product_id = ''p1'', product_name = ''Widget'', price = ex_price, quantity = 2\<rparr>],
     status = PENDING, created_at = 0, paid_at = None, version = 1\<rparr>"
  by (simp add: ex_order_def Order_def add_line_def check_modifiable_def OrderLine_def
      ex_price_def)

section \<open>A paid order rejects every call\<close>

lemma paid_apply_op:
  assumes "status od = PAID" and "lines od \<noteq> []"
  shows "apply_op c od =
           (Inl (case c of Pay t \<Rightarrow> OrderAlreadyPaidError ''Order is already paid''
                 | _ \<Rightarrow> OrderCannotBeModifiedError ''Cannot modify paid order''), od)"
  using assms
  by (cases c)
     (simp_all add: add_line_def remove_line_def update_quantity_def clear_lines_def
        cancel_def pay_def check_modifiable_paid)

lemma paid_run_ops:
  assumes "status od = PAID" and "lines od \<noteq> []"
  shows "run_ops cs od = od"
  using assms by (induction cs) (simp_all add: paid_apply_op)

lemma pay_success_state:
  assumes "fst (pay now od) = Inr ()"
  shows "status (snd (pay now od)) = PAID \<and> lines (snd (pay now od)) \<noteq> []"
  using assms by (auto simp: pay_def split: if_splits)

text \<open>
  Claim C5. Once \<^verbatim>\<open>pay()\<close> has returned normally, each of \<^verbatim>\<open>add_line\<close>,
  \<^verbatim>\<open>remove_line\<close>, \<^verbatim>\<open>update_quantity\<close>, \<^verbatim>\<open>clear_lines\<close> and \<^verbatim>\<open>cancel\<close> raises
  \<^verbatim>\<open>OrderCannotBeModifiedError\<close> and leaves the order as it was, a second \<^verbatim>\<open>pay()\<close>
  raises \<^verbatim>\<open>OrderAlreadyPaidError\<close>, and this stays so after any sequence of further
  calls, since such a sequence leaves the paid order unchanged.
\<close>

theorem after_pay_every_call_fails:
  assumes "fst (pay now od) = Inr ()"
  shows "add_line pid name p q (snd (pay now od)) =
           (Inl (OrderCannotBeModifiedError ''Cannot modify paid order''), snd (pay now od))
       \<and> remove_line pid (snd (pay now od)) =
           (Inl (OrderCannotBeModifiedError ''Cannot modify paid order''), snd (pay now od))
       \<and> update_quantity pid q (snd (pay now od)) =
           (Inl (OrderCannotBeModifiedError ''Cannot modify paid order''), snd (pay now od))
       \<and> clear_lines (snd (pay now od)) =
           (Inl (OrderCannotBeModifiedError ''Cannot modify paid order''), snd (pay now od))
       \<and> cancel (snd (pay now od)) =
           (Inl (OrderCannotBeModifiedError ''Cannot modify paid order''), snd (pay now od))
       \<and> pay t (snd (pay now od)) =
           (Inl (OrderAlreadyPaidError ''Order is already paid''), snd (pay now od))
       \<and> run_ops cs (snd (pay now od)) = snd (pay now od)"
proof -
  let ?p = "snd (pay now od)"
  have st: "status ?p = PAID" and ne: "lines ?p \<noteq> []"
    using pay_success_state [OF assms] by simp_all
  have "apply_op (AddLine pid name p q) ?p =
          (Inl (OrderCannotBeModifiedError ''Cannot modify paid order''), ?p)"
    using paid_apply_op [OF st ne, of "AddLine pid name p q"] by simp
  moreover have "apply_op (RemoveLine pid) ?p =
          (Inl (OrderCannotBeModifiedError ''Cannot modify paid order''), ?p)"
    using paid_apply_op [OF st ne, of "RemoveLine pid"] by simp
  moreover have "apply_op (UpdateQuantity pid q) ?p =
          (Inl (OrderCannotBeModifiedError ''Cannot modify paid order''), ?p)"
    using paid_apply_op [OF st ne, of "UpdateQuantity pid q"] by simp
  moreover have "apply_op ClearLines ?p =
          (Inl (OrderCannotBeModifiedError ''Cannot modify paid order''), ?p)"
    using paid_apply_op [OF st ne, of ClearLines] by simp
  moreover have "apply_op Cancel ?p =
          (Inl (OrderCannotBeModifiedError ''Cannot modify paid order''), ?p)"
    using paid_apply_op [OF st ne, of Cancel] by simp
  moreover have "apply_op (Pay t) ?p =
          (Inl (OrderAlreadyPaidError ''Order is already paid''), ?p)"
    using paid_apply_op [OF st ne, of "Pay t"] by simp
  moreover have "run_ops cs ?p = ?p"
    by (rule paid_run_ops [OF st ne])
  ultimately show ?thesis by simp
qed

theorem after_pay_every_call_fails_witness:
  "fst (pay 7 ex_order) = Inr ()
   \<and> add_line ''p2'' ''Gadget'' ex_price 1 (snd (pay 7 ex_order)) =
       (Inl (OrderCannotBeModifiedError ''Cannot modify paid order''), snd (pay 7 ex_order))
   \<and> pay 8 (snd (pay 7 ex_order)) =
       (Inl (OrderAlreadyPaidError ''Order is already paid''), snd (pay 7 ex_order))
   \<and> run_ops [Cancel, ClearLines, Pay 9] (snd (pay 7 ex_order)) = snd (pay 7 ex_order)"
proof -
  have h: "fst (pay 7 ex_order) = Inr ()"
    by (simp add: ex_order_eq pay_def)
  show ?thesis
    using h after_pay_every_call_fails
      [OF h, of "''p2''" "''Gadget''" ex_price 1 8 "[Cancel, ClearLines, Pay 9]"]
    by (simp del: run_ops.simps)
qed

section \<open>The guards of pay\<close>

text \<open>
  Claim C6. \<^verbatim>\<open>pay()\<close> tests emptiness first and the Paid status second. On an order
  with zero lines it raises \<^verbatim>\<open>EmptyOrderError\<close> and leaves the order, hence its status,
  as it was: a Pending order stays Pending. On an order with lines whose status is Paid
  it raises \<^verbatim>\<open>OrderAlreadyPaidError\<close>. Otherwise it returns normally with the status set
  to Paid, \<^verbatim>\<open>paid_at\<close> set to the current time and the revision counter one higher.
\<close>

theorem pay_guard_order:
  "(line_count od = 0 \<longrightarrow>
      pay now od = (Inl (EmptyOrderError ''Cannot pay empty order''), od))
   \<and> (line_count od = 0 \<and> status od = PENDING \<longrightarrow> status (snd (pay now od)) = PENDING)
   \<and> (line_count od \<noteq> 0 \<and> status od = PAID \<longrightarrow>
      pay now od = (Inl (OrderAlreadyPaidError ''Order is already paid''), od))
   \<and> (line_count od \<noteq> 0 \<and> status od \<noteq> PAID \<longrightarrow>
      pay now od =
        (Inr (), od\<lparr>status := PAID, paid_at := Some now, version := version od + 1\<rparr>))"
  by (simp add: pay_def line_count_def)

theorem pay_guard_order_witness:
  "line_count (Order ''o1'' ''c1'' 0) = 0 \<and> status (Order ''o1'' ''c1'' 0) = PENDING
   \<and> pay 7 (Order ''o1'' ''c1'' 0) =
       (Inl (EmptyOrderError ''Cannot pay empty order''), Order ''o1'' ''c1'' 0)
   \<and> status (snd (pay 7 (Order ''o1'' ''c1'' 0))) = PENDING
   \<and> line_count (snd (pay 7 ex_order)) \<noteq> 0 \<and> status (snd (pay 7 ex_order)) = PAID
   \<and> pay 8 (snd (pay 7 ex_order)) =
       (Inl (OrderAlreadyPaidError ''Order is already paid''), snd (pay 7 ex_order))
   \<and> line_count ex_order \<noteq> 0 \<and> status ex_order \<noteq> PAID
   \<and> pay 7 ex_order =
       (Inr (), ex_order\<lparr>status := PAID, paid_at := Some 7, version := version ex_order + 1\<rparr>)"
proof -
  have a: "line_count (Order ''o1'' ''c1'' 0) = 0 \<and> status (Order ''o1'' ''c1'' 0) = PENDING"
    by (simp add: Order_def line_count_def)
  have b: "line_count (snd (pay 7 ex_order)) \<noteq> 0 \<and> status (snd (pay 7 ex_order)) = PAID"
    by (simp add: ex_order_eq pay_def line_count_def)
  have c: "line_count ex_order \<noteq> 0 \<and> status ex_order \<noteq> PAID"
    by (simp add: ex_order_eq line_count_def)
  show ?thesis
    using a b c pay_guard_order [of "Order ''o1'' ''c1'' 0" 7]
      pay_guard_order [of "snd (pay 7 ex_order)" 8] pay_guard_order [of ex_order 7]
    by simp
qed

lemma reachable_run_ops:
  assumes "reachable od" and "list_all wellformed_op cs"
  shows "reachable (run_ops cs od)"
  using assms
proof (induction cs arbitrary: od)
  case Nil
  then show ?case by simp
next
  case (Cons c cs)
  from Cons.prems have "reachable (snd (apply_op c od))"
    by (simp add: reachable.step)
  with Cons show ?case by simp
qed

lemma ex_cancelled_order_eq:
  "ex_cancelled_order = \<lparr>id_order = ''o1'', customer_id = ''c1'',
     lines = [\<lparr>product_id = ''p1'', product_name = ''Widget'', price = ex_price, quantity = 2\<rparr>],
     status = CANCELLED, created_at = 0, paid_at = None, version = 2\<rparr>"
  by (simp add: ex_cancelled_order_def Order_def add_line_def cancel_def check_modifiable_def
      OrderLine_def ex_price_def)

lemma ex_negative_order_eq:
  "ex_negative_order = \<lparr>id_order = ''o1'', customer_id = ''c1'',
     lines = [\<lparr>product_id = ''p1'', product_name = ''Widget'', price = ex_price, quantity = - 3\<rparr>],
     status = PENDING, created_at = 0, paid_at = None, version = 2\<rparr>"
  by (simp add: ex_negative_order_def Order_def add_line_def check_modifiable_def
      OrderLine_def ex_price_def)

lemma reachable_ex_cancelled_order: "reachable ex_cancelled_order"
  unfolding ex_cancelled_order_def
  by (rule reachable_run_ops) (simp_all add: reachable.new ex_price_def)

lemma reachable_ex_negative_order: "reachable ex_negative_order"
  unfolding ex_negative_order_def
  by (rule reachable_run_ops) (simp_all add: reachable.new ex_price_def)

lemma reachable_ex_order: "reachable ex_order"
  unfolding ex_order_def
  by (rule reachable_run_ops) (simp_all add: reachable.new ex_price_def)

section \<open>The status machine\<close>

text \<open>
  Claim C1, as stated, fails: \<^verbatim>\<open>pay()\<close> tests only for the Paid status, so on a
  cancelled order that has lines it returns normally and moves the order from Cancelled
  to Paid.
\<close>

theorem cancelled_order_can_be_paid:
  "reachable ex_cancelled_order \<and> status ex_cancelled_order = CANCELLED
   \<and> fst (pay 7 ex_cancelled_order) = Inr ()
   \<and> status (snd (pay 7 ex_cancelled_order)) = PAID"
  using reachable_ex_cancelled_order by (simp add: ex_cancelled_order_eq pay_def)

lemma status_apply_op:
  "status (snd (apply_op c od)) = status od
   \<or> (status od \<noteq> PAID \<and> (\<exists>t. c = Pay t) \<and> lines od \<noteq> [] \<and> fst (apply_op c od) = Inr ()
        \<and> status (snd (apply_op c od)) = PAID)
   \<or> (status od \<noteq> PAID \<and> c = Cancel \<and> fst (apply_op c od) = Inr ()
        \<and> status (snd (apply_op c od)) = CANCELLED)"
  by (cases c)
     (auto simp: add_line_def remove_line_def update_quantity_def clear_lines_def
        cancel_def pay_def check_modifiable_def Let_def
        split: sum.splits option.splits prod.splits if_splits)

lemma paid_stays_paid: "status od = PAID \<Longrightarrow> status (run_ops cs od) = PAID"
proof (induction cs arbitrary: od)
  case Nil
  then show ?case by simp
next
  case (Cons c cs)
  from status_apply_op [of c od] Cons.prems have "status (snd (apply_op c od)) = PAID"
    by auto
  then show ?case using Cons.IH by simp
qed

lemma never_back_to_pending:
  "status od \<noteq> PENDING \<Longrightarrow> status (run_ops cs od) \<noteq> PENDING"
proof (induction cs arbitrary: od)
  case Nil
  then show ?case by simp
next
  case (Cons c cs)
  from status_apply_op [of c od] Cons.prems have "status (snd (apply_op c od)) \<noteq> PENDING"
    by auto
  then show ?case using Cons.IH by simp
qed

text \<open>
  Claim C1, amended. No call ever moves an order out of Paid status, and no call returns
  an order to Pending once it has left it. A call on a Pending order leaves it Pending,
  or is a \<^verbatim>\<open>pay\<close> that makes it Paid, or a \<^verbatim>\<open>cancel\<close> that makes it Cancelled. A call
  on a Cancelled order leaves it Cancelled, unless it is a \<^verbatim>\<open>pay\<close> on an order with
  lines, which succeeds and makes it Paid.
\<close>

theorem status_machine:
  "(status od = PAID \<longrightarrow> status (run_ops cs od) = PAID)
   \<and> (status od \<noteq> PENDING \<longrightarrow> status (run_ops cs od) \<noteq> PENDING)
   \<and> (status od = PENDING \<longrightarrow>
        status (snd (apply_op c od)) = PENDING
        \<or> ((\<exists>t. c = Pay t) \<and> fst (apply_op c od) = Inr () \<and> status (snd (apply_op c od)) = PAID)
        \<or> (c = Cancel \<and> fst (apply_op c od) = Inr ()
             \<and> status (snd (apply_op c od)) = CANCELLED))
   \<and> (status od = CANCELLED \<longrightarrow>
        status (snd (apply_op c od)) = CANCELLED
        \<or> ((\<exists>t. c = Pay t) \<and> lines od \<noteq> [] \<and> fst (apply_op c od) = Inr ()
             \<and> status (snd (apply_op c od)) = PAID))
   \<and> (status od = CANCELLED \<and> lines od \<noteq> [] \<longrightarrow>
        fst (pay now od) = Inr () \<and> status (snd (pay now od)) = PAID)"
proof -
  have "status od = PENDING \<longrightarrow>
        status (snd (apply_op c od)) = PENDING
        \<or> ((\<exists>t. c = Pay t) \<and> fst (apply_op c od) = Inr () \<and> status (snd (apply_op c od)) = PAID)
        \<or> (c = Cancel \<and> fst (apply_op c od) = Inr ()
             \<and> status (snd (apply_op c od)) = CANCELLED)"
    using status_apply_op [of c od] by auto
  moreover have "status od = CANCELLED \<longrightarrow>
        status (snd (apply_op c od)) = CANCELLED
        \<or> ((\<exists>t. c = Pay t) \<and> lines od \<noteq> [] \<and> fst (apply_op c od) = Inr ()
             \<and> status (snd (apply_op c od)) = PAID)"
    using status_apply_op [of c od] by auto
  moreover have "status od = CANCELLED \<and> lines od \<noteq> [] \<longrightarrow>
        fst (pay now od) = Inr () \<and> status (snd (pay now od)) = PAID"
    by (simp add: pay_def)
  ultimately show ?thesis
    using paid_stays_paid [of od cs] never_back_to_pending [of od cs] by blast
qed

theorem status_machine_witness:
  "status (snd (pay 7 ex_order)) = PAID
   \<and> status (run_ops [Cancel, ClearLines, Pay 9] (snd (pay 7 ex_order))) = PAID
   \<and> status ex_cancelled_order = CANCELLED \<and> lines ex_cancelled_order \<noteq> []
   \<and> status (run_ops [ClearLines, Cancel] ex_cancelled_order) \<noteq> PENDING
   \<and> fst (pay 7 ex_cancelled_order) = Inr () \<and> status (snd (pay 7 ex_cancelled_order)) = PAID
   \<and> status ex_order = PENDING
   \<and> (status (snd (apply_op Cancel ex_order)) = PENDING
        \<or> ((\<exists>t. Cancel = Pay t) \<and> fst (apply_op Cancel ex_order) = Inr ()
             \<and> status (snd (apply_op Cancel ex_order)) = PAID)
        \<or> (fst (apply_op Cancel ex_order) = Inr ()
             \<and> status (snd (apply_op Cancel ex_order)) = CANCELLED))"
proof -
  have a: "status (snd (pay 7 ex_order)) = PAID"
    by (simp add: ex_order_eq pay_def)
  have b: "status ex_cancelled_order = CANCELLED \<and> lines ex_cancelled_order \<noteq> []"
    by (simp add: ex_cancelled_order_eq)
  have c: "status ex_order = PENDING"
    by (simp add: ex_order_eq)
  show ?thesis
    using a b c
      status_machine [of "snd (pay 7 ex_order)" "[Cancel, ClearLines, Pay 9]" Cancel 7]
      status_machine [of ex_cancelled_order "[ClearLines, Cancel]" Cancel 7]
      status_machine [of ex_order "[]" Cancel 7]
    by (simp del: run_ops.simps apply_op.simps)
qed

section \<open>The line invariants\<close>

text \<open>
  Claim C3 at a failing input. On a reachable order that holds two units of a product,
  \<^verbatim>\<open>add_line\<close> of the same product with quantity -5 returns normally and leaves the
  line with quantity -3, while the same call for a product not yet in the order raises
  \<^verbatim>\<open>InvalidOrderLineError\<close>.
\<close>

theorem add_line_merges_negative_quantity:
  "reachable ex_order
   \<and> fst (add_line ''p1'' ''Widget'' ex_price (- 5) ex_order) = Inr ()
   \<and> snd (add_line ''p1'' ''Widget'' ex_price (- 5) ex_order) = ex_negative_order
   \<and> reachable ex_negative_order
   \<and> map quantity (lines ex_negative_order) = [- 3]
   \<and> fst (add_line ''p2'' ''Gadget'' ex_price (- 5) ex_order) =
       Inl (InvalidOrderLineError ''Quantity must be positive'')"
  using reachable_ex_order reachable_ex_negative_order
  by (simp add: ex_order_eq ex_negative_order_eq add_line_def check_modifiable_def
      OrderLine_def ex_price_def)

section \<open>Updating a quantity\<close>

lemma merge_line_ids:
  "merge_line pid q ls = Some ls' \<Longrightarrow> map product_id ls' = map product_id ls"
  by (induction ls arbitrary: ls') (auto split: if_splits)

lemma merge_line_None:
  "merge_line pid q ls = None \<longleftrightarrow> pid \<notin> set (map product_id ls)"
  by (induction ls) auto

lemma set_quantity_ids: "map product_id (set_quantity pid q ls) = map product_id ls"
  by (induction ls) auto

lemma distinct_filter_ids:
  "distinct (map product_id ls) \<Longrightarrow> distinct (map product_id (filter P ls))"
  by (induction ls) auto

lemma OrderLine_id: "OrderLine pid name p q = Inr l \<Longrightarrow> product_id l = pid"
  by (auto simp: OrderLine_def split: if_splits)

lemma distinct_apply_op:
  assumes "distinct (map product_id (lines od))"
  shows "distinct (map product_id (lines (snd (apply_op c od))))"
proof (cases c)
  case (AddLine pid name p q)
  show ?thesis
  proof (cases "merge_line pid q (lines od)")
    case None
    then have "pid \<notin> set (map product_id (lines od))"
      by (simp add: merge_line_None)
    with assms AddLine None show ?thesis
      by (auto simp: add_line_def dest: OrderLine_id split: sum.splits)
  next
    case (Some ls)
    with assms AddLine show ?thesis
      by (auto simp: add_line_def merge_line_ids split: sum.splits)
  qed
next
  case (RemoveLine pid)
  with assms show ?thesis
    by (auto simp: remove_line_def Let_def distinct_filter_ids split: sum.splits)
next
  case (UpdateQuantity pid q)
  with assms show ?thesis
    by (auto simp: update_quantity_def remove_line_def Let_def distinct_filter_ids
        set_quantity_ids split: sum.splits)
next
  case ClearLines
  with assms show ?thesis by (auto simp: clear_lines_def split: sum.splits)
next
  case (Pay t)
  with assms show ?thesis by (auto simp: pay_def)
next
  case Cancel
  with assms show ?thesis by (auto simp: cancel_def split: sum.splits)
qed

lemma reachable_distinct: "reachable od \<Longrightarrow> distinct (map product_id (lines od))"
proof (induction rule: reachable.induct)
  case (new oid cid now)
  show ?case by (simp add: Order_def)
next
  case (step od c)
  then show ?case by (simp add: distinct_apply_op)
qed

lemma length_filter_distinct:
  assumes "distinct (map product_id ls)" and "pid \<in> set (map product_id ls)"
  shows "length (filter (\<lambda>l. product_id l \<noteq> pid) ls) + 1 = length ls"
  using assms
proof (induction ls)
  case Nil
  then show ?case by simp
next
  case (Cons l ls)
  show ?case
  proof (cases "product_id l = pid")
    case True
    with Cons.prems have "pid \<notin> set (map product_id ls)" by auto
    then have "filter (\<lambda>l. product_id l \<noteq> pid) ls = ls"
      by (auto simp: filter_id_conv)
    with True show ?thesis by simp
  next
    case False
    with Cons show ?thesis by auto
  qed
qed

lemma set_quantity_distinct:
  assumes "distinct (map product_id ls)"
  shows "set_quantity pid q ls =
           map (\<lambda>l. if product_id l = pid then l\<lparr>quantity := q\<rparr> else l) ls"
  using assms
proof (induction ls)
  case Nil
  then show ?case by simp
next
  case (Cons l ls)
  show ?case
  proof (cases "product_id l = pid")
    case True
    with Cons.prems have "pid \<notin> set (map product_id ls)" by auto
    then have "map (\<lambda>l. if product_id l = pid then l\<lparr>quantity := q\<rparr> else l) ls = ls"
      by (intro map_idI) auto
    with True show ?thesis by simp
  next
    case False
    with Cons show ?thesis by simp
  qed
qed

text \<open>
  Claim C9. On a Pending order that the public methods produced, \<^verbatim>\<open>update_quantity\<close>
  with a quantity of at most 0 for a product of the order does what \<^verbatim>\<open>remove_line\<close>
  does (and counts one more revision): the product is gone and \<^verbatim>\<open>line_count\<close> is one
  lower. For a product that is not in the order it raises the \<^verbatim>\<open>ValueError\<close>
  ``Product ... not found in order'' and leaves the order as it was. Otherwise it sets
  the quantity of the product's line to the given value and counts one revision.
\<close>

theorem update_quantity_cases:
  assumes "reachable od" and "status od = PENDING"
  shows "(pid \<in> set (map product_id (lines od)) \<and> q \<le> 0 \<longrightarrow>
            update_quantity pid q od =
              (Inr (), (snd (remove_line pid od))\<lparr>version := version (snd (remove_line pid od)) + 1\<rparr>)
            \<and> pid \<notin> set (map product_id (lines (snd (update_quantity pid q od))))
            \<and> line_count (snd (update_quantity pid q od)) + 1 = line_count od)
       \<and> (pid \<notin> set (map product_id (lines od)) \<longrightarrow>
            update_quantity pid q od =
              (Inl (ValueError (''Product '' @ pid @ '' not found in order'')), od))
       \<and> (pid \<in> set (map product_id (lines od)) \<and> 0 < q \<longrightarrow>
            update_quantity pid q od =
              (Inr (), od\<lparr>lines := map (\<lambda>l. if product_id l = pid then l\<lparr>quantity := q\<rparr> else l)
                                      (lines od),
                         version := version od + 1\<rparr>))"
proof -
  have d: "distinct (map product_id (lines od))"
    using assms(1) by (rule reachable_distinct)
  have m: "check_modifiable od = Inr ()"
    using assms(2) by (simp add: check_modifiable_def)
  have r: "remove_line pid od =
      (Inr (), if length (filter (\<lambda>l. product_id l \<noteq> pid) (lines od)) \<noteq> length (lines od)
               then od\<lparr>lines := filter (\<lambda>l. product_id l \<noteq> pid) (lines od),
                       version := version od + 1\<rparr>
               else od\<lparr>lines := filter (\<lambda>l. product_id l \<noteq> pid) (lines od)\<rparr>)"
    by (simp add: remove_line_def m Let_def)
  have one: "pid \<in> set (map product_id (lines od)) \<and> q \<le> 0 \<longrightarrow>
            update_quantity pid q od =
              (Inr (), (snd (remove_line pid od))\<lparr>version := version (snd (remove_line pid od)) + 1\<rparr>)
            \<and> pid \<notin> set (map product_id (lines (snd (update_quantity pid q od))))
            \<and> line_count (snd (update_quantity pid q od)) + 1 = line_count od"
  proof (intro impI, elim conjE)
    assume p: "pid \<in> set (map product_id (lines od))" and q: "q \<le> 0"
    have u: "update_quantity pid q od =
              (Inr (), (snd (remove_line pid od))\<lparr>version := version (snd (remove_line pid od)) + 1\<rparr>)"
      using p q by (simp add: update_quantity_def m r)
    have l: "lines (snd (update_quantity pid q od)) =
               filter (\<lambda>l. product_id l \<noteq> pid) (lines od)"
      by (simp add: u r)
    have "pid \<notin> set (map product_id (lines (snd (update_quantity pid q od))))"
      by (auto simp: l)
    moreover have "line_count (snd (update_quantity pid q od)) + 1 = line_count od"
      using length_filter_distinct [OF d p] by (simp add: line_count_def l)
    ultimately show "update_quantity pid q od =
              (Inr (), (snd (remove_line pid od))\<lparr>version := version (snd (remove_line pid od)) + 1\<rparr>)
            \<and> pid \<notin> set (map product_id (lines (snd (update_quantity pid q od))))
            \<and> line_count (snd (update_quantity pid q od)) + 1 = line_count od"
      using u by simp
  qed
  have two: "pid \<notin> set (map product_id (lines od)) \<longrightarrow>
            update_quantity pid q od =
              (Inl (ValueError (''Product '' @ pid @ '' not found in order'')), od)"
    by (simp add: update_quantity_def m)
  have three: "pid \<in> set (map product_id (lines od)) \<and> 0 < q \<longrightarrow>
            update_quantity pid q od =
              (Inr (), od\<lparr>lines := map (\<lambda>l. if product_id l = pid then l\<lparr>quantity := q\<rparr> else l)
                                      (lines od),
                         version := version od + 1\<rparr>)"
    using set_quantity_distinct [OF d] by (simp add: update_quantity_def m)
  from one two three show ?thesis by blast
qed

theorem update_quantity_cases_witness:
  "reachable ex_order \<and> status ex_order = PENDING
   \<and> ''p1'' \<in> set (map product_id (lines ex_order))
   \<and> fst (update_quantity ''p1'' 0 ex_order) = Inr ()
   \<and> line_count (snd (update_quantity ''p1'' 0 ex_order)) + 1 = line_count ex_order
   \<and> ''p9'' \<notin> set (map product_id (lines ex_order))
   \<and> update_quantity ''p9'' 0 ex_order =
       (Inl (ValueError ''Product p9 not found in order''), ex_order)
   \<and> map quantity (lines (snd (update_quantity ''p1'' 5 ex_order))) = [5]
   \<and> version (snd (update_quantity ''p1'' 5 ex_order)) = version ex_order + 1"
proof -
  have a: "reachable ex_order" by (rule reachable_ex_order)
  have b: "status ex_order = PENDING" by (simp add: ex_order_eq)
  have c: "''p1'' \<in> set (map product_id (lines ex_order))
         \<and> ''p9'' \<notin> set (map product_id (lines ex_order))"
    by (simp add: ex_order_eq)
  have t1: "fst (update_quantity ''p1'' 0 ex_order) = Inr ()
         \<and> line_count (snd (update_quantity ''p1'' 0 ex_order)) + 1 = line_count ex_order"
    using c update_quantity_cases [OF a b, of "''p1''" 0] by auto
  have t2: "update_quantity ''p9'' 0 ex_order =
       (Inl (ValueError ''Product p9 not found in order''), ex_order)"
    using c update_quantity_cases [OF a b, of "''p9''" 0] by simp
  have t3: "map quantity (lines (snd (update_quantity ''p1'' 5 ex_order))) = [5]
         \<and> version (snd (update_quantity ''p1'' 5 ex_order)) = version ex_order + 1"
    using c update_quantity_cases [OF a b, of "''p1''" 5] by (simp add: ex_order_eq)
  from a b c t1 t2 t3 show ?thesis by simp
qed

section \<open>The total\<close>

lemma ex_laptop_order_eq:
  "ex_laptop_order = \<lparr>id_order = ''o1'', customer_id = ''c1'',
     lines = [\<lparr>product_id = ''p1'', product_name = ''Laptop'',
               price = \<lparr>amount = 99999 / 100, currency = ''USD''\<rparr>, quantity = 1\<rparr>,
              \<lparr>product_id = ''p2'', product_name = ''Mouse'',
               price = \<lparr>amount = 2999 / 100, currency = ''USD''\<rparr>, quantity = 2\<rparr>],
     status = PENDING, created_at = 0, paid_at = None, version = 2\<rparr>"
  by (simp add: ex_laptop_order_def Order_def add_line_def check_modifiable_def OrderLine_def)

lemma ex_mixed_order_eq:
  "ex_mixed_order = \<lparr>id_order = ''o2'', customer_id = ''c1'',
     lines = [\<lparr>product_id = ''p1'', product_name = ''Widget'', price = ex_price, quantity = 2\<rparr>,
              \<lparr>product_id = ''p2'', product_name = ''Gadget'',
               price = \<lparr>amount = 5, currency = ''EUR''\<rparr>, quantity = 1\<rparr>],
     status = PENDING, created_at = 0, paid_at = None, version = 2\<rparr>"
  by (simp add: ex_mixed_order_def Order_def add_line_def check_modifiable_def OrderLine_def
      ex_price_def)











section \<open>A failed charge\<close>

lemma total_paid_laptop_order:
  "total_order (ex_laptop_order\<lparr>status := PAID, paid_at := Some now, version := 3\<rparr>) =
     Inr \<lparr>amount = 105997 / 100, currency = ''USD''\<rparr>"
  by (simp add: ex_laptop_order_eq total_order_def Money_def subtotal_def money_mul_def
      money_add_def)

lemma pay_laptop_order:
  "pay now ex_laptop_order =
     (Inr (), ex_laptop_order\<lparr>status := PAID, paid_at := Some now, version := 3\<rparr>)"
  by (simp add: ex_laptop_order_eq pay_def)

lemma ex_world_get:
  "id_order od = oid \<Longrightarrow>
     InMemoryOrderRepository_get_by_id oid (ex_world od d) = (Inr (Some 0), ex_world od d)"
  by (simp add: InMemoryOrderRepository_get_by_id_def ex_world_def)

lemma ex_world_collab:
  "collab (ex_world od d) =
     \<lparr>orders = [id_order od \<mapsto> 0], success_rate = (if d then 0 else 1),
      simulate_failure = d, transactions = [], failures_count = 0\<rparr>"
  by (simp add: ex_world_def)

lemma ex_world_clock: "clock (ex_world od d) = 7"
  by (simp add: ex_world_def)

lemma ex_world_heap: "heap (ex_world od d) 0 = od"
  by (simp add: ex_world_def)

lemma ex_world_pay_laptop:
  "pay_at 0 (ex_world ex_laptop_order d) =
     (Inr (), (ex_world ex_laptop_order d)
        \<lparr>heap := (heap (ex_world ex_laptop_order d))
           (0 := ex_laptop_order\<lparr>status := PAID, paid_at := Some 7, version := 3\<rparr>)\<rparr>)"
  by (simp add: pay_at_def ex_world_def pay_laptop_order)

text \<open>
  Claim C2 at a failing input. The repository holds the Pending order of the payment
  tests and the gateway declines. \<^verbatim>\<open>execute\<close> returns a failure whose error is the
  prefixed message of the gateway, and \<^verbatim>\<open>save\<close> is not called; but \<^verbatim>\<open>get_by_id\<close>
  had returned the stored object itself, which \<^verbatim>\<open>pay()\<close> changed in place, so the
  order the repository returns for that id afterwards has status Paid.
\<close>

theorem failed_charge_stored_order_paid:
  "status (heap (ex_world ex_laptop_order True) 0) = PENDING
   \<and> fst (execute InMemoryOrderRepository (FakePaymentGateway (1 / 2) ''ABCDEFGHIJ'') ''o1''
           (ex_world ex_laptop_order True)) =
       (\<lparr>success = False, order_id = Some ''o1'', transaction_id = None,
         error = Some ''Payment processing error: Payment gateway declined transaction for order o1''\<rparr>,
        [GetById ''o1'', Charge ''o1'' \<lparr>amount = 105997 / 100, currency = ''USD''\<rparr>])
   \<and> fst (InMemoryOrderRepository_get_by_id ''o1''
           (snd (execute InMemoryOrderRepository (FakePaymentGateway (1 / 2) ''ABCDEFGHIJ'') ''o1''
                 (ex_world ex_laptop_order True)))) = Inr (Some 0)
   \<and> status (heap (snd (execute InMemoryOrderRepository
                          (FakePaymentGateway (1 / 2) ''ABCDEFGHIJ'') ''o1''
                          (ex_world ex_laptop_order True))) 0) = PAID"
proof -
  have i: "id_order ex_laptop_order = ''o1''" "status ex_laptop_order = PENDING"
    by (simp_all add: ex_laptop_order_eq)
  show ?thesis
    by (simp add: execute_def InMemoryOrderRepository_def InMemoryOrderRepository_get_by_id_def
        FakePaymentGateway_def FakePaymentGateway_charge_def ex_world_def pay_at_def
        pay_laptop_order total_paid_laptop_order handle_exception_def i)
qed

section \<open>Exceptions in execute\<close>

lemma pay_raises_domain:
  assumes "fst (pay now od) = Inl e"
  shows "(e = EmptyOrderError ''Cannot pay empty order''
          \<or> e = OrderAlreadyPaidError ''Order is already paid'')
         \<and> snd (pay now od) = od"
  using assms by (auto simp: pay_def split: if_splits)

text \<open>
  Claim C7. When the repository returns an order and \<^verbatim>\<open>order.pay()\<close> raises (it raises
  only \<^verbatim>\<open>EmptyOrderError\<close> or \<^verbatim>\<open>OrderAlreadyPaidError\<close>, both domain exceptions),
  \<^verbatim>\<open>execute\<close> returns a failure whose error is the message of the exception itself,
  the only call it has made on a collaborator is \<^verbatim>\<open>get_by_id\<close> (neither \<^verbatim>\<open>charge\<close> nor
  \<^verbatim>\<open>save\<close> is called), and the world is as \<^verbatim>\<open>get_by_id\<close> left it.
\<close>

theorem domain_error_stops_execute:
  assumes "get_by_id repo oid w = (Inr (Some a), w1)"
    and "fst (pay (clock w1) (heap w1 a)) = Inl e"
  shows "isinstance_DomainException e
       \<and> execute repo gw oid w =
           ((\<lparr>success = False, order_id = Some oid, transaction_id = None,
              error = Some (str e)\<rparr>, [GetById oid]), w1)"
proof -
  from pay_raises_domain [OF assms(2)]
  have k: "e = EmptyOrderError ''Cannot pay empty order''
           \<or> e = OrderAlreadyPaidError ''Order is already paid''"
    and u: "snd (pay (clock w1) (heap w1 a)) = heap w1 a" by simp_all
  from k have d: "isinstance_DomainException e" by auto
  have p: "pay (clock w1) (heap w1 a) = (Inl e, heap w1 a)"
    using assms(2) u by (simp add: prod_eq_iff)
  have "pay_at a w1 = (Inl e, w1)"
    by (simp add: pay_at_def p)
  then have "execute repo gw oid w = ((handle_exception oid e, [GetById oid]), w1)"
    by (simp add: execute_def assms(1))
  with d show ?thesis by (simp add: handle_exception_def)
qed

theorem domain_error_stops_execute_witness:
  "execute InMemoryOrderRepository (FakePaymentGateway (1 / 2) ''ABCDEFGHIJ'') ''o1''
     (ex_world (Order ''o1'' ''c1'' 0) False) =
     ((\<lparr>success = False, order_id = Some ''o1'', transaction_id = None,
        error = Some ''Cannot pay empty order''\<rparr>, [GetById ''o1'']),
      ex_world (Order ''o1'' ''c1'' 0) False)"
proof -
  have g: "get_by_id InMemoryOrderRepository ''o1'' (ex_world (Order ''o1'' ''c1'' 0) False) =
             (Inr (Some 0), ex_world (Order ''o1'' ''c1'' 0) False)"
    by (simp add: InMemoryOrderRepository_def InMemoryOrderRepository_get_by_id_def
        ex_world_def Order_def)
  have p: "fst (pay (clock (ex_world (Order ''o1'' ''c1'' 0) False))
                 (heap (ex_world (Order ''o1'' ''c1'' 0) False) 0)) =
             Inl (EmptyOrderError ''Cannot pay empty order'')"
    by (simp add: ex_world_def Order_def pay_def)
  show ?thesis
    using domain_error_stops_execute [OF g p, of "FakePaymentGateway (1 / 2) ''ABCDEFGHIJ''"]
    by simp
qed

text \<open>
  Claim C10, as stated, fails: when \<^verbatim>\<open>save\<close> raises a domain exception after the
  charge succeeded, the first \<^verbatim>\<open>except\<close> clause catches it and the error is the bare
  message, without the prefix.
\<close>

theorem save_domain_error_unprefixed:
  "fst (execute (ex_failing_repo (DomainException ''Order was changed elsewhere''))
         (FakePaymentGateway 0 ''ABCDEFGHIJ'') ''o1''
         (ex_world ex_laptop_order False)) =
     (\<lparr>success = False, order_id = Some ''o1'', transaction_id = None,
       error = Some ''Order was changed elsewhere''\<rparr>,
      [GetById ''o1'', Charge ''o1'' \<lparr>amount = 105997 / 100, currency = ''USD''\<rparr>, Save 0])"
proof -
  have i: "id_order ex_laptop_order = ''o1''"
    by (simp add: ex_laptop_order_eq)
  show ?thesis
    by (simp add: execute_def ex_failing_repo_def InMemoryOrderRepository_get_by_id_def
        FakePaymentGateway_def FakePaymentGateway_charge_def ex_world_def pay_at_def
        pay_laptop_order total_paid_laptop_order handle_exception_def i)
qed

lemma success_handle_exception: "\<not> success (handle_exception oid e)"
  by (simp add: handle_exception_def)

text \<open>
  Claim C10, amended. When \<^verbatim>\<open>save\<close> raises after the charge succeeded, \<^verbatim>\<open>execute\<close>
  returns a failure without a transaction id; its error is the prefix ``Payment
  processing error: '' followed by the message when the exception is not a domain
  exception, and the message alone when it is. A result with \<^verbatim>\<open>success\<close> set is
  returned only when \<^verbatim>\<open>save\<close> has returned normally.
\<close>

theorem save_failure_result:
  "(get_by_id repo oid w = (Inr (Some a), w1) \<and> pay_at a w1 = (Inr (), w2)
      \<and> total_order (heap w2 a) = Inr amt \<and> charge gw oid amt w2 = (Inr txn, w3)
      \<and> save repo a w3 = (Inl e, w4) \<longrightarrow>
      execute repo gw oid w =
        ((\<lparr>success = False, order_id = Some oid, transaction_id = None,
           error = Some (if isinstance_DomainException e then str e
                         else ''Payment processing error: '' @ str e)\<rparr>,
          [GetById oid, Charge oid amt, Save a]), w4))
   \<and> (success (fst (fst (execute repo gw oid w))) \<longrightarrow>
        (\<exists>a amt txn w3 w4.
            save repo a w3 = (Inr (), w4)
          \<and> execute repo gw oid w =
              ((\<lparr>success = True, order_id = Some oid, transaction_id = Some txn,
                 error = None\<rparr>, [GetById oid, Charge oid amt, Save a]), w4)))"
proof -
  have one: "get_by_id repo oid w = (Inr (Some a), w1) \<and> pay_at a w1 = (Inr (), w2)
      \<and> total_order (heap w2 a) = Inr amt \<and> charge gw oid amt w2 = (Inr txn, w3)
      \<and> save repo a w3 = (Inl e, w4) \<longrightarrow>
      execute repo gw oid w =
        ((\<lparr>success = False, order_id = Some oid, transaction_id = None,
           error = Some (if isinstance_DomainException e then str e
                         else ''Payment processing error: '' @ str e)\<rparr>,
          [GetById oid, Charge oid amt, Save a]), w4)"
    by (simp add: execute_def handle_exception_def)
  have two: "success (fst (fst (execute repo gw oid w))) \<longrightarrow>
        (\<exists>a amt txn w3 w4.
            save repo a w3 = (Inr (), w4)
          \<and> execute repo gw oid w =
              ((\<lparr>success = True, order_id = Some oid, transaction_id = Some txn,
                 error = None\<rparr>, [GetById oid, Charge oid amt, Save a]), w4))"
    by (auto simp: execute_def success_handle_exception
        split: prod.splits sum.splits option.splits)
  from one two show ?thesis by blast
qed


theorem save_failure_result_witness:
  "execute (ex_failing_repo (Exception ''Disk full'')) (FakePaymentGateway 0 ''ABCDEFGHIJ'')
     ''o1'' (ex_world ex_laptop_order False) =
     ((\<lparr>success = False, order_id = Some ''o1'', transaction_id = None,
        error = Some ''Payment processing error: Disk full''\<rparr>,
       [GetById ''o1'', Charge ''o1'' \<lparr>amount = 105997 / 100, currency = ''USD''\<rparr>, Save 0]),
      snd (FakePaymentGateway_charge 0 ''ABCDEFGHIJ'' ''o1''
             \<lparr>amount = 105997 / 100, currency = ''USD''\<rparr>
             (snd (pay_at 0 (ex_world ex_laptop_order False)))))
   \<and> success (fst (fst (execute InMemoryOrderRepository (FakePaymentGateway 0 ''ABCDEFGHIJ'')
                            ''o1'' (ex_world ex_laptop_order False))))
   \<and> transaction_id (fst (fst (execute InMemoryOrderRepository
                                   (FakePaymentGateway 0 ''ABCDEFGHIJ'')
                                   ''o1'' (ex_world ex_laptop_order False)))) =
       Some ''TXN_ABCDEFGHIJ''"
proof -
  let ?w = "ex_world ex_laptop_order False"
  let ?w2 = "snd (pay_at 0 ?w)"
  let ?amt = "\<lparr>amount = 105997 / 100, currency = ''USD''\<rparr>"
  let ?w3 = "snd (FakePaymentGateway_charge 0 ''ABCDEFGHIJ'' ''o1'' ?amt ?w2)"
  have i: "id_order ex_laptop_order = ''o1''"
    by (simp add: ex_laptop_order_eq)
  have g: "get_by_id (ex_failing_repo (Exception ''Disk full'')) ''o1'' ?w = (Inr (Some 0), ?w)"
    by (simp add: ex_failing_repo_def ex_world_get i)
  have p: "pay_at 0 ?w = (Inr (), ?w2)"
    by (simp add: ex_world_pay_laptop)
  have t: "total_order (heap ?w2 0) = Inr ?amt"
    by (simp add: ex_world_pay_laptop total_paid_laptop_order)
  have c: "charge (FakePaymentGateway 0 ''ABCDEFGHIJ'') ''o1'' ?amt ?w2 =
             (Inr ''TXN_ABCDEFGHIJ'', ?w3)"
    by (simp add: FakePaymentGateway_def FakePaymentGateway_charge_def ex_world_pay_laptop
        ex_world_collab)
  have s: "save (ex_failing_repo (Exception ''Disk full'')) 0 ?w3 =
             (Inl (Exception ''Disk full''), ?w3)"
    by (simp add: ex_failing_repo_def)
  have ok: "success (fst (fst (execute InMemoryOrderRepository
                                 (FakePaymentGateway 0 ''ABCDEFGHIJ'') ''o1'' ?w)))"
    by (simp add: execute_def InMemoryOrderRepository_def ex_world_get i ex_world_pay_laptop
        total_paid_laptop_order FakePaymentGateway_def FakePaymentGateway_charge_def
        InMemoryOrderRepository_save_def ex_world_collab)
  have first: "execute (ex_failing_repo (Exception ''Disk full''))
                 (FakePaymentGateway 0 ''ABCDEFGHIJ'') ''o1'' ?w =
     ((\<lparr>success = False, order_id = Some ''o1'', transaction_id = None,
        error = Some ''Payment processing error: Disk full''\<rparr>,
       [GetById ''o1'', Charge ''o1'' ?amt, Save 0]), ?w3)"
    using g p t c s
      save_failure_result [of "ex_failing_repo (Exception ''Disk full'')" "''o1''" ?w 0 ?w
        ?w2 ?amt "FakePaymentGateway 0 ''ABCDEFGHIJ''" "''TXN_ABCDEFGHIJ''" ?w3
        "Exception ''Disk full''" ?w3]
    by simp
  have "\<exists>a amt txn w3 w4.
          save InMemoryOrderRepository a w3 = (Inr (), w4)
        \<and> execute InMemoryOrderRepository (FakePaymentGateway 0 ''ABCDEFGHIJ'') ''o1'' ?w =
            ((\<lparr>success = True, order_id = Some ''o1'', transaction_id = Some txn,
               error = None\<rparr>, [GetById ''o1'', Charge ''o1'' amt, Save a]), w4)"
    using ok
      save_failure_result [of InMemoryOrderRepository "''o1''" ?w 0 ?w
        ?w2 ?amt "FakePaymentGateway 0 ''ABCDEFGHIJ''" "''TXN_ABCDEFGHIJ''" ?w3
        "Exception ''Disk full''" ?w3]
    by blast
  then obtain txn where
    "fst (fst (execute InMemoryOrderRepository (FakePaymentGateway 0 ''ABCDEFGHIJ'') ''o1'' ?w)) =
       \<lparr>success = True, order_id = Some ''o1'', transaction_id = Some txn, error = None\<rparr>"
    by auto
  moreover have "transaction_id (fst (fst (execute InMemoryOrderRepository
                    (FakePaymentGateway 0 ''ABCDEFGHIJ'') ''o1'' ?w))) = Some ''TXN_ABCDEFGHIJ''"
    by (simp add: execute_def InMemoryOrderRepository_def ex_world_get i ex_world_pay_laptop
        total_paid_laptop_order FakePaymentGateway_def FakePaymentGateway_charge_def
        InMemoryOrderRepository_save_def ex_world_collab)
  ultimately show ?thesis using first ok by simp
qed

text \<open>
  Claim C4, as stated, fails: a missing product, a currency mismatch and a negative
  amount are raised as \<^verbatim>\<open>ValueError\<close>, which is not a \<^verbatim>\<open>DomainException\<close>; when the
  total of a two-currency order raises inside \<^verbatim>\<open>execute\<close>, the error carries the
  prefix.
\<close>

theorem value_errors_are_not_domain_errors:
  "fst (update_quantity ''p9'' 1 ex_order) = Inl (ValueError ''Product p9 not found in order'')
   \<and> money_add ex_price \<lparr>amount = 5, currency = ''EUR''\<rparr> =
       Inl (ValueError ''Cannot add different currencies: USD and EUR'')
   \<and> Money (- 1) ''USD'' = Inl (ValueError ''Amount cannot be negative'')
   \<and> \<not> isinstance_DomainException (ValueError ''Cannot add different currencies: USD and EUR'')
   \<and> fst (execute InMemoryOrderRepository (FakePaymentGateway 0 ''ABCDEFGHIJ'') ''o2''
           (ex_world ex_mixed_order False)) =
       (\<lparr>success = False, order_id = Some ''o2'', transaction_id = None,
         error = Some ''Payment processing error: Cannot add different currencies: USD and EUR''\<rparr>,
        [GetById ''o2''])"
proof -
  have a: "fst (update_quantity ''p9'' 1 ex_order) =
             Inl (ValueError ''Product p9 not found in order'')"
    by (simp add: update_quantity_def check_modifiable_def ex_order_eq)
  have b: "money_add ex_price \<lparr>amount = 5, currency = ''EUR''\<rparr> =
             Inl (ValueError ''Cannot add different currencies: USD and EUR'')"
    by (simp add: money_add_def ex_price_def)
  have c: "Money (- 1) ''USD'' = Inl (ValueError ''Amount cannot be negative'')"
    by (simp add: Money_def)
  have i: "id_order ex_mixed_order = ''o2''"
    by (simp add: ex_mixed_order_eq)
  have p: "pay_at 0 (ex_world ex_mixed_order False) =
     (Inr (), (ex_world ex_mixed_order False)
        \<lparr>heap := (heap (ex_world ex_mixed_order False))
           (0 := ex_mixed_order\<lparr>status := PAID, paid_at := Some 7, version := 3\<rparr>)\<rparr>)"
    by (simp add: pay_at_def ex_world_def pay_def ex_mixed_order_eq)
  have t: "total_order (ex_mixed_order\<lparr>status := PAID, paid_at := Some 7, version := 3\<rparr>) =
             Inl (ValueError ''Cannot add different currencies: USD and EUR'')"
    by (simp add: ex_mixed_order_eq total_order_def Money_def subtotal_def money_mul_def
        money_add_def ex_price_def)
  have d: "fst (execute InMemoryOrderRepository (FakePaymentGateway 0 ''ABCDEFGHIJ'') ''o2''
           (ex_world ex_mixed_order False)) =
       (\<lparr>success = False, order_id = Some ''o2'', transaction_id = None,
         error = Some ''Payment processing error: Cannot add different currencies: USD and EUR''\<rparr>,
        [GetById ''o2''])"
    by (simp add: execute_def InMemoryOrderRepository_def ex_world_get i p t
        handle_exception_def)
  from a b c d show ?thesis by simp
qed

text \<open>
  Claim C4, amended. \<^verbatim>\<open>pay\<close> raises only \<^verbatim>\<open>EmptyOrderError\<close> or
  \<^verbatim>\<open>OrderAlreadyPaidError\<close>, the modifiability guard only \<^verbatim>\<open>OrderCannotBeModifiedError\<close>,
  the \<^verbatim>\<open>OrderLine\<close> constructor only \<^verbatim>\<open>InvalidOrderLineError\<close>; these four derive from
  \<^verbatim>\<open>DomainException\<close>, and the handler of \<^verbatim>\<open>execute\<close> gives the message of a domain
  exception as it is. A missing product in \<^verbatim>\<open>update_quantity\<close>, a currency mismatch in
  \<^verbatim>\<open>Money.__add__\<close> and a negative amount in the \<^verbatim>\<open>Money\<close> constructor are raised as
  \<^verbatim>\<open>ValueError\<close>, which does not derive from \<^verbatim>\<open>DomainException\<close>, and the handler
  gives its message with the prefix ``Payment processing error: ''.
\<close>

theorem raised_exception_classes:
  "(fst (pay now od) = Inl e \<longrightarrow>
      e = EmptyOrderError ''Cannot pay empty order''
      \<or> e = OrderAlreadyPaidError ''Order is already paid'')
   \<and> (check_modifiable od = Inl e \<longrightarrow>
        e = OrderCannotBeModifiedError ''Cannot modify paid order'')
   \<and> (OrderLine pid name p q = Inl e \<longrightarrow>
        e = InvalidOrderLineError ''Quantity must be positive''
        \<or> e = InvalidOrderLineError ''Price must be positive'')
   \<and> (fst (update_quantity pid q od) = Inl e \<longrightarrow>
        e = OrderCannotBeModifiedError ''Cannot modify paid order''
        \<or> e = ValueError (''Product '' @ pid @ '' not found in order''))
   \<and> (money_add a b = Inl e \<longrightarrow>
        e = ValueError (''Cannot add different currencies: '' @ currency a @ '' and ''
                        @ currency b)
        \<or> e = ValueError ''Amount cannot be negative'')
   \<and> (Money amt cur = Inl e \<longrightarrow> e = ValueError ''Amount cannot be negative'')
   \<and> isinstance_DomainException (EmptyOrderError m)
   \<and> isinstance_DomainException (OrderAlreadyPaidError m)
   \<and> isinstance_DomainException (OrderCannotBeModifiedError m)
   \<and> isinstance_DomainException (InvalidOrderLineError m)
   \<and> \<not> isinstance_DomainException (ValueError m)
   \<and> (isinstance_DomainException e \<longrightarrow>
        handle_exception oid e =
          \<lparr>success = False, order_id = Some oid, transaction_id = None,
           error = Some (str e)\<rparr>)
   \<and> handle_exception oid (ValueError m) =
        \<lparr>success = False, order_id = Some oid, transaction_id = None,
         error = Some (''Payment processing error: '' @ m)\<rparr>"
proof -
  have "fst (pay now od) = Inl e \<longrightarrow>
      e = EmptyOrderError ''Cannot pay empty order''
      \<or> e = OrderAlreadyPaidError ''Order is already paid''"
    by (auto simp: pay_def split: if_splits)
  moreover have "check_modifiable od = Inl e \<longrightarrow>
        e = OrderCannotBeModifiedError ''Cannot modify paid order''"
    by (auto simp: check_modifiable_def split: if_splits)
  moreover have "OrderLine pid name p q = Inl e \<longrightarrow>
        e = InvalidOrderLineError ''Quantity must be positive''
        \<or> e = InvalidOrderLineError ''Price must be positive''"
    by (auto simp: OrderLine_def split: if_splits)
  moreover have "fst (update_quantity pid q od) = Inl e \<longrightarrow>
        e = OrderCannotBeModifiedError ''Cannot modify paid order''
        \<or> e = ValueError (''Product '' @ pid @ '' not found in order'')"
    by (auto simp: update_quantity_def remove_line_def check_modifiable_def Let_def
        split: if_splits)
  moreover have "money_add a b = Inl e \<longrightarrow>
        e = ValueError (''Cannot add different currencies: '' @ currency a @ '' and ''
                        @ currency b)
        \<or> e = ValueError ''Amount cannot be negative''"
    by (auto simp: money_add_def Money_def split: if_splits)
  moreover have "Money amt cur = Inl e \<longrightarrow> e = ValueError ''Amount cannot be negative''"
    by (auto simp: Money_def split: if_splits)
  ultimately show ?thesis by (simp add: handle_exception_def)
qed

theorem raised_exception_classes_witness:
  "fst (pay 7 (Order ''o1'' ''c1'' 0)) = Inl (EmptyOrderError ''Cannot pay empty order'')
   \<and> handle_exception ''o1'' (EmptyOrderError ''Cannot pay empty order'') =
       \<lparr>success = False, order_id = Some ''o1'', transaction_id = None,
        error = Some ''Cannot pay empty order''\<rparr>
   \<and> fst (update_quantity ''p9'' 1 ex_order) = Inl (ValueError ''Product p9 not found in order'')
   \<and> handle_exception ''o1'' (ValueError ''Product p9 not found in order'') =
       \<lparr>success = False, order_id = Some ''o1'', transaction_id = None,
        error = Some ''Payment processing error: Product p9 not found in order''\<rparr>"
proof -
  have a: "fst (pay 7 (Order ''o1'' ''c1'' 0)) = Inl (EmptyOrderError ''Cannot pay empty order'')"
    by (simp add: pay_def Order_def)
  have b: "fst (update_quantity ''p9'' 1 ex_order) =
             Inl (ValueError ''Product p9 not found in order'')"
    by (simp add: update_quantity_def check_modifiable_def ex_order_eq)
  have c: "isinstance_DomainException (EmptyOrderError ''Cannot pay empty order'')"
    by simp
  show ?thesis
    using a b c
      raised_exception_classes [of 7 "Order ''o1'' ''c1'' 0"
        "EmptyOrderError ''Cannot pay empty order''" _ _ _ _ _ _ _ _ _ "''o1''"]
      raised_exception_classes [of _ _ _ _ _ _ _ _ _ _ _
        "''Product p9 not found in order''" "''o1''"]
    by simp
qed

end
